theory Spec2Isabelle
  imports Main "HOL-Library.Word" "HOL-Library.Signed_Division"
begin

section \<open>Data model of client.go\<close>

text \<open>
  Go's \<open>int\<close> on a 64-bit target is a 64-bit two's complement integer. Its division
  truncates towards zero, and the one overflowing quotient (the most negative value
  divided by \<open>-1\<close>) wraps around to the dividend.
\<close>

type_synonym go_int = "64 word"

definition go_div :: "go_int \<Rightarrow> go_int \<Rightarrow> go_int" where
  "go_div a b = word_of_int (sint a sdiv sint b)"

definition API_CHANNEL :: string where
  "API_CHANNEL = ''ion-sfu''"

definition PUBLISHER :: go_int where
  "PUBLISHER = 0"

definition SUBSCRIBER :: go_int where
  "SUBSCRIBER = 1"

text \<open>\<open>type TrackState int32\<close> with its three named values.\<close>

type_synonym TrackState = "32 word"

definition TrackNone :: TrackState where
  "TrackNone = 0"

definition TrackAdd :: TrackState where
  "TrackAdd = 1"

definition TrackRemove :: TrackState where
  "TrackRemove = 2"

record Simulcast =
  Rid :: string
  Direction :: string
  Parameters :: string

record Track =
  ID :: string
  StreamID :: string
  Kind :: string
  Muted :: bool
  Simulcast :: "Simulcast list"

record TrackEvent =
  State :: TrackState
  Uid :: string
  Tracks :: "Track list"

text \<open>The data channel command \<open>Call\<close> (declared after \<open>Track\<close>, so that the plain
  field name \<open>StreamID\<close> is the one of \<open>Call\<close>).\<close>

record Call =
  StreamID :: string
  Video :: string
  Audio :: bool

subsection \<open>Values of the collaborators\<close>

text \<open>
  Session descriptions, candidates, local tracks, senders and marshalled bytes belong to
  the media engine, the signaling layer and the standard library. The client only passes
  them on, so they are opaque strings here.
\<close>

type_synonym SessionDescription = string
type_synonym ICECandidateInit = string
type_synonym ICECandidate = string
type_synonym TrackLocal = string
type_synonym RTPSender = string
type_synonym bytes = string

datatype RTPTransceiver = RTPTransceiver (Sender: RTPSender)

datatype DataChannel = DataChannel (Label: string)

datatype DataChannelState =
    DataChannelStateConnecting
  | DataChannelStateOpen
  | DataChannelStateClosing
  | DataChannelStateClosed

text \<open>Modelled from the spec: \<open>errInvalidFile\<close> is declared in another file of the
  package; it is the unsupported-file-type error. Every other error value comes from a
  collaborator.\<close>

datatype error = errInvalidFile | Err string

text \<open>A run-time panic of the Go program.\<close>

datatype panic = integer_divide_by_zero

text \<open>Modelled from the spec: the media-file producer is built by
  \<open>NewWebMProducer(path, offset)\<close> in another file of the package; the client holds it as
  a handle.\<close>

datatype WebMProducer = WebMProducer string go_int

text \<open>The two peer connections, \<open>c.pub.pc\<close> and \<open>c.sub.pc\<close>.\<close>

datatype peer = pub_pc | sub_pc

text \<open>A user callback is code of the application; the default track-event handler is the
  closure that \<open>trackEvent\<close> installs.\<close>

datatype TrackEventFunc = user_func | default_func

subsection \<open>Calls to the collaborators\<close>

text \<open>
  Every method the client calls on a peer connection, on the signaling handle, on the
  control data channel, on the producer or on a user callback is recorded, with its
  arguments, in the order the calls are made.
\<close>

datatype event =
    OnTrack peer
  | OnDataChannel peer
  | OnICEConnectionStateChange peer
  | CreateOffer peer
  | CreateAnswer peer
  | SetLocalDescription peer SessionDescription
  | SetRemoteDescription peer SessionDescription
  | CurrentRemoteDescription peer
  | AddICECandidate peer ICECandidateInit
  | AddTrack peer TrackLocal
  | RemoveTrack peer RTPSender
  | signal_Join string string SessionDescription
  | signal_offer SessionDescription
  | signal_answer SessionDescription
  | signal_trickle ICECandidate go_int
  | signal_Subscribe "string list" bool
  | dc_OnOpen
  | dc_ReadyState
  | dc_Send bytes
  | time_Sleep nat
  | NewWebMProducer string go_int
  | GetVideoTrack
  | GetAudioTrack
  | Start
  | GetSendBandwidth go_int
  | user_OnTrackEvent TrackEvent
  | user_OnDataChannel DataChannel

text \<open>Lines written to the log: level, format string, arguments.\<close>

datatype level = Debugf | Infof | Errorf

datatype logarg =
    LStr string
  | LErr error
  | LInt go_int
  | LBool bool
  | LCall Call
  | LStrs "string list"
  | LEvent TrackEvent

type_synonym logline = "level \<times> string \<times> logarg list"

text \<open>
  What the collaborators answer. Each answer may depend on every call made so far (the
  first argument), so any behaviour of the engine, of the coordinator and of the channel
  is one value of this record. \<open>json.Marshal\<close> is a pure function of the command.
\<close>

record World =
  res_CreateOffer :: "event list \<Rightarrow> peer \<Rightarrow> SessionDescription \<times> error option"
  res_CreateAnswer :: "event list \<Rightarrow> peer \<Rightarrow> SessionDescription \<times> error option"
  res_SetLocalDescription :: "event list \<Rightarrow> peer \<Rightarrow> SessionDescription \<Rightarrow> error option"
  res_SetRemoteDescription :: "event list \<Rightarrow> peer \<Rightarrow> SessionDescription \<Rightarrow> error option"
  res_CurrentRemoteDescription :: "event list \<Rightarrow> peer \<Rightarrow> SessionDescription option"
  res_AddICECandidate :: "event list \<Rightarrow> peer \<Rightarrow> ICECandidateInit \<Rightarrow> error option"
  res_AddTrack :: "event list \<Rightarrow> peer \<Rightarrow> TrackLocal \<Rightarrow> error option"
  res_RemoveTrack :: "event list \<Rightarrow> peer \<Rightarrow> RTPSender \<Rightarrow> error option"
  res_signal_Join :: "event list \<Rightarrow> string \<Rightarrow> string \<Rightarrow> SessionDescription \<Rightarrow> error option"
  res_signal_Subscribe :: "event list \<Rightarrow> string list \<Rightarrow> bool \<Rightarrow> error option"
  res_ReadyState :: "event list \<Rightarrow> DataChannelState"
  res_Send :: "event list \<Rightarrow> bytes \<Rightarrow> error option"
  res_GetVideoTrack :: "event list \<Rightarrow> TrackLocal \<times> error option"
  res_GetAudioTrack :: "event list \<Rightarrow> TrackLocal \<times> error option"
  res_GetSendBandwidth :: "event list \<Rightarrow> go_int \<Rightarrow> go_int"
  json_Marshal :: "Call \<Rightarrow> bytes \<times> error option"

subsection \<open>Transport and Client\<close>

text \<open>The fields of \<open>Transport\<close> that client.go uses; the peer connection itself is
  named by \<open>peer\<close>.\<close>

record Transport =
  api :: "DataChannel option"
  RecvCandidates :: "ICECandidateInit list"
  SendCandidates :: "ICECandidate list"

text \<open>
  The client. \<open>pub\<close> and \<open>sub\<close> are the transports behind the two pointers, which
  are set when the client is built. \<open>calls\<close> and \<open>logged\<close> are the record of what the
  client has done to the outside so far.
\<close>

record Client =
  uid :: string
  sid :: string
  pub :: Transport
  sub :: Transport
  OnDataChannelFunc :: "unit option"
  OnTrackEvent :: "TrackEventFunc option"
  producer :: "WebMProducer option"
  recvByte :: go_int
  apiQueue :: "Call list"
  calls :: "event list"
  logged :: "logline list"

definition emit :: "event \<Rightarrow> Client \<Rightarrow> Client" where
  "emit e c = c\<lparr>calls := calls c @ [e]\<rparr>"

definition logf :: "level \<Rightarrow> string \<Rightarrow> logarg list \<Rightarrow> Client \<Rightarrow> Client" where
  "logf l fmt args c = c\<lparr>logged := logged c @ [(l, fmt, args)]\<rparr>"

definition transport :: "peer \<Rightarrow> Client \<Rightarrow> Transport" where
  "transport p c = (case p of pub_pc \<Rightarrow> pub c | sub_pc \<Rightarrow> sub c)"

definition set_transport :: "peer \<Rightarrow> Transport \<Rightarrow> Client \<Rightarrow> Client" where
  "set_transport p t c = (case p of pub_pc \<Rightarrow> c\<lparr>pub := t\<rparr> | sub_pc \<Rightarrow> c\<lparr>sub := t\<rparr>)"

subsection \<open>One call to a collaborator: its answer, and the call recorded\<close>

definition pc_CreateOffer ::
  "World \<Rightarrow> peer \<Rightarrow> Client \<Rightarrow> (SessionDescription \<times> error option) \<times> Client" where
  "pc_CreateOffer w p c = (res_CreateOffer w (calls c) p, emit (CreateOffer p) c)"

definition pc_CreateAnswer ::
  "World \<Rightarrow> peer \<Rightarrow> Client \<Rightarrow> (SessionDescription \<times> error option) \<times> Client" where
  "pc_CreateAnswer w p c = (res_CreateAnswer w (calls c) p, emit (CreateAnswer p) c)"

definition pc_SetLocalDescription ::
  "World \<Rightarrow> peer \<Rightarrow> SessionDescription \<Rightarrow> Client \<Rightarrow> error option \<times> Client" where
  "pc_SetLocalDescription w p d c =
     (res_SetLocalDescription w (calls c) p d, emit (SetLocalDescription p d) c)"

definition pc_SetRemoteDescription ::
  "World \<Rightarrow> peer \<Rightarrow> SessionDescription \<Rightarrow> Client \<Rightarrow> error option \<times> Client" where
  "pc_SetRemoteDescription w p d c =
     (res_SetRemoteDescription w (calls c) p d, emit (SetRemoteDescription p d) c)"

definition pc_CurrentRemoteDescription ::
  "World \<Rightarrow> peer \<Rightarrow> Client \<Rightarrow> SessionDescription option \<times> Client" where
  "pc_CurrentRemoteDescription w p c =
     (res_CurrentRemoteDescription w (calls c) p, emit (CurrentRemoteDescription p) c)"

definition pc_AddICECandidate ::
  "World \<Rightarrow> peer \<Rightarrow> ICECandidateInit \<Rightarrow> Client \<Rightarrow> error option \<times> Client" where
  "pc_AddICECandidate w p cand c =
     (res_AddICECandidate w (calls c) p cand, emit (AddICECandidate p cand) c)"

definition pc_AddTrack :: "World \<Rightarrow> peer \<Rightarrow> TrackLocal \<Rightarrow> Client \<Rightarrow> error option \<times> Client" where
  "pc_AddTrack w p t c = (res_AddTrack w (calls c) p t, emit (AddTrack p t) c)"

definition pc_RemoveTrack :: "World \<Rightarrow> peer \<Rightarrow> RTPSender \<Rightarrow> Client \<Rightarrow> error option \<times> Client" where
  "pc_RemoveTrack w p s c = (res_RemoveTrack w (calls c) p s, emit (RemoveTrack p s) c)"

definition do_signal_Join ::
  "World \<Rightarrow> string \<Rightarrow> string \<Rightarrow> SessionDescription \<Rightarrow> Client \<Rightarrow> error option \<times> Client" where
  "do_signal_Join w s u offer c =
     (res_signal_Join w (calls c) s u offer, emit (signal_Join s u offer) c)"

definition do_signal_Subscribe ::
  "World \<Rightarrow> string list \<Rightarrow> bool \<Rightarrow> Client \<Rightarrow> error option \<times> Client" where
  "do_signal_Subscribe w trackIds enabled c =
     (res_signal_Subscribe w (calls c) trackIds enabled, emit (signal_Subscribe trackIds enabled) c)"

definition api_ReadyState :: "World \<Rightarrow> Client \<Rightarrow> DataChannelState \<times> Client" where
  "api_ReadyState w c = (res_ReadyState w (calls c), emit dc_ReadyState c)"

definition api_Send :: "World \<Rightarrow> bytes \<Rightarrow> Client \<Rightarrow> error option \<times> Client" where
  "api_Send w b c = (res_Send w (calls c) b, emit (dc_Send b) c)"

definition producer_GetVideoTrack :: "World \<Rightarrow> Client \<Rightarrow> (TrackLocal \<times> error option) \<times> Client" where
  "producer_GetVideoTrack w c = (res_GetVideoTrack w (calls c), emit GetVideoTrack c)"

definition producer_GetAudioTrack :: "World \<Rightarrow> Client \<Rightarrow> (TrackLocal \<times> error option) \<times> Client" where
  "producer_GetAudioTrack w c = (res_GetAudioTrack w (calls c), emit GetAudioTrack c)"

definition producer_GetSendBandwidth :: "World \<Rightarrow> go_int \<Rightarrow> Client \<Rightarrow> go_int \<times> Client" where
  "producer_GetSendBandwidth w cycle c =
     (res_GetSendBandwidth w (calls c) cycle, emit (GetSendBandwidth cycle) c)"

section \<open>Join\<close>

text \<open>
  \<open>Join\<close> registers the three handlers on the subscriber connection, then creates the
  offer on the publisher connection, sets it as local description and sends the join
  request; each failing step returns its error at once.
\<close>

definition Join :: "World \<Rightarrow> string \<Rightarrow> Client \<Rightarrow> error option \<times> Client" where
  "Join w sid' c =
     (let c = logf Debugf ''[Client.Join] sid=%v uid=%v'' [LStr sid', LStr (uid c)] c;
          c = emit (OnTrack sub_pc) c;
          c = emit (OnDataChannel sub_pc) c;
          c = emit (OnICEConnectionStateChange sub_pc) c;
          ((offer, err), c) = pc_CreateOffer w pub_pc c
      in case err of
           Some e \<Rightarrow> (Some e, c)
         | None \<Rightarrow>
             (let (err, c) = pc_SetLocalDescription w pub_pc offer c
              in case err of
                   Some e \<Rightarrow> (Some e, c)
                 | None \<Rightarrow> do_signal_Join w sid' (uid c) offer c))"

section \<open>Renegotiation and publishing\<close>

text \<open>\<open>onNegotiationNeeded\<close> returns nothing: both errors are logged and the function
  goes on with the next step.\<close>

definition onNegotiationNeeded :: "World \<Rightarrow> Client \<Rightarrow> Client" where
  "onNegotiationNeeded w c =
     (let ((offer, err), c) = pc_CreateOffer w pub_pc c;
          c = (case err of
                 Some e \<Rightarrow> logf Errorf ''id=%v err=%v'' [LStr (uid c), LErr e] c
               | None \<Rightarrow> c);
          (err, c) = pc_SetLocalDescription w pub_pc offer c;
          c = (case err of
                 Some e \<Rightarrow> logf Errorf ''id=%v err=%v'' [LStr (uid c), LErr e] c
               | None \<Rightarrow> c)
      in emit (signal_offer offer) c)"

text \<open>The loop of \<open>Publish\<close> over the tracks; \<open>Some e\<close> is the early return.\<close>

fun Publish_tracks :: "World \<Rightarrow> TrackLocal list \<Rightarrow> Client \<Rightarrow> error option \<times> Client" where
  "Publish_tracks w [] c = (None, c)"
| "Publish_tracks w (t # ts) c =
     (let (err, c) = pc_AddTrack w pub_pc t c
      in case err of
           Some e \<Rightarrow> (Some e, logf Errorf ''AddTrack error: %v'' [LErr e] c)
         | None \<Rightarrow> Publish_tracks w ts c)"

text \<open>\<open>transceivers\<close> is declared and never appended to, so the returned slice is
  always empty.\<close>

definition Publish ::
  "World \<Rightarrow> TrackLocal list \<Rightarrow> Client \<Rightarrow> (RTPTransceiver list \<times> error option) \<times> Client" where
  "Publish w tracks c =
     (let (err, c) = Publish_tracks w tracks c
      in case err of
           Some e \<Rightarrow> (([], Some e), c)
         | None \<Rightarrow> (([], None), onNegotiationNeeded w c))"

fun UnPublish_transceivers ::
  "World \<Rightarrow> RTPTransceiver list \<Rightarrow> Client \<Rightarrow> error option \<times> Client" where
  "UnPublish_transceivers w [] c = (None, c)"
| "UnPublish_transceivers w (t # ts) c =
     (let (err, c) = pc_RemoveTrack w pub_pc (Sender t) c
      in case err of
           Some e \<Rightarrow> (Some e, c)
         | None \<Rightarrow> UnPublish_transceivers w ts c)"

definition UnPublish :: "World \<Rightarrow> RTPTransceiver list \<Rightarrow> Client \<Rightarrow> error option \<times> Client" where
  "UnPublish w transceivers c =
     (let (err, c) = UnPublish_transceivers w transceivers c
      in case err of
           Some e \<Rightarrow> (Some e, c)
         | None \<Rightarrow> (None, onNegotiationNeeded w c))"

subsection \<open>PublishFile\<close>

text \<open>
  \<open>filepath.Ext\<close> of the standard library (Unix separator): scan from the last byte
  towards the first, stop at a separator, return the suffix that starts at the first
  dot met. The first argument of \<open>Ext_scan\<close> is the part of the path not yet scanned,
  last byte first; the second one is the suffix already passed.
\<close>

fun Ext_scan :: "string \<Rightarrow> string \<Rightarrow> string" where
  "Ext_scan [] suffix = []"
| "Ext_scan (ch # before) suffix =
     (if ch = CHR ''/'' then []
      else if ch = CHR ''.'' then ch # suffix
      else Ext_scan before (ch # suffix))"

definition filepath_Ext :: "string \<Rightarrow> string" where
  "filepath_Ext path = Ext_scan (rev path) []"

text \<open>
  In the source the error test after \<open>AddTrack\<close> sits inside the \<open>if video\<close> and
  \<open>if audio\<close> blocks; here it follows the block, where \<open>err\<close> is \<open>None\<close> when the
  block is skipped. The error of \<open>GetVideoTrack\<close> and \<open>GetAudioTrack\<close> is bound and then
  overwritten by the one of \<open>AddTrack\<close>, as in the source.
\<close>

definition PublishFile :: "World \<Rightarrow> string \<Rightarrow> bool \<Rightarrow> bool \<Rightarrow> Client \<Rightarrow> error option \<times> Client" where
  "PublishFile w file video audio c =
     (let ext = filepath_Ext file
      in if ext = ''.webm'' then
           (let c = emit (NewWebMProducer file 0) c;
                c = c\<lparr>producer := Some (WebMProducer file 0)\<rparr>;
                (err, c) =
                  (if video then
                     (let ((videoTrack, err), c) = producer_GetVideoTrack w c;
                          (err, c) = pc_AddTrack w pub_pc videoTrack c
                      in (err, c))
                   else (None, c))
            in case err of
                 Some e \<Rightarrow> (Some e, logf Debugf ''err=%v'' [LErr e] c)
               | None \<Rightarrow>
                   (let (err, c) =
                          (if audio then
                             (let ((audioTrack, err), c) = producer_GetAudioTrack w c;
                                  (err, c) = pc_AddTrack w pub_pc audioTrack c
                              in (err, c))
                           else (None, c))
                    in case err of
                         Some e \<Rightarrow> (Some e, logf Debugf ''err=%v'' [LErr e] c)
                       | None \<Rightarrow> (None, onNegotiationNeeded w (emit Start c))))
         else (Some errInvalidFile, c))"

section \<open>Bandwidth sampling\<close>

text \<open>The division by \<open>cycle\<close> panics when \<open>cycle\<close> is zero; the call to the producer
  comes before it.\<close>

definition getBandWidth :: "World \<Rightarrow> go_int \<Rightarrow> Client \<Rightarrow> panic + ((go_int \<times> go_int) \<times> Client)" where
  "getBandWidth w cycle c =
     (let (sendBW, c) =
            (case producer c of
               Some p \<Rightarrow> producer_GetSendBandwidth w cycle c
             | None \<Rightarrow> (0, c))
      in if cycle = 0 then Inl integer_divide_by_zero
         else (let recvBW = go_div (go_div (recvByte c) cycle) 1000;
                   c = c\<lparr>recvByte := 0\<rparr>
               in Inr ((recvBW, sendBW), c)))"

section \<open>Candidates\<close>

text \<open>
  \<open>trickle\<close>: a candidate from the coordinator. The transport is the subscriber's when
  \<open>target\<close> is \<open>SUBSCRIBER\<close> and the publisher's for every other value.
\<close>

definition trickle :: "World \<Rightarrow> ICECandidateInit \<Rightarrow> go_int \<Rightarrow> Client \<Rightarrow> Client" where
  "trickle w candidate target c =
     (let c = logf Debugf ''id=%v candidate=%v target=%v''
                [LStr (uid c), LStr candidate, LInt target] c;
          t = (if target = SUBSCRIBER then sub_pc else pub_pc);
          (rd, c) = pc_CurrentRemoteDescription w t c
      in if rd = None then
           set_transport t
             ((transport t c)\<lparr>RecvCandidates := RecvCandidates (transport t c) @ [candidate]\<rparr>) c
         else
           (let (err, c) = pc_AddICECandidate w t candidate c
            in case err of
                 Some e \<Rightarrow> logf Errorf ''id=%v err=%v'' [LStr (uid c), LErr e] c
               | None \<Rightarrow> c))"

section \<open>negotiate\<close>

text \<open>The two loops of \<open>negotiate\<close>, over the outbound and the inbound buffer of the
  subscriber transport. The result of \<open>AddICECandidate\<close> is dropped there.\<close>

fun negotiate_send :: "ICECandidate list \<Rightarrow> Client \<Rightarrow> Client" where
  "negotiate_send [] c = c"
| "negotiate_send (cand # cands) c =
     (let c = logf Debugf ''id=%v send sub.SendCandidates c.uid, c.signal.trickle cand=%v''
                [LStr (uid c), LStr cand] c;
          c = emit (signal_trickle cand SUBSCRIBER) c
      in negotiate_send cands c)"

fun negotiate_recv :: "World \<Rightarrow> ICECandidateInit list \<Rightarrow> Client \<Rightarrow> Client" where
  "negotiate_recv w [] c = c"
| "negotiate_recv w (candidate # candidates) c =
     (let c = logf Debugf ''id=%v Negotiate c.sub.pc.AddICECandidate candidate=%v''
                [LStr (uid c), LStr candidate] c;
          (_, c) = pc_AddICECandidate w sub_pc candidate c
      in negotiate_recv w candidates c)"

text \<open>Steps 2 and 3 of \<open>negotiate\<close>, as the source numbers them: each buffer is
  walked and then replaced by an empty one, when it is not empty.\<close>

definition negotiate_step2 :: "Client \<Rightarrow> Client" where
  "negotiate_step2 c =
     (if length (SendCandidates (sub c)) > 0 then
        (let c = negotiate_send (SendCandidates (sub c)) c
         in c\<lparr>sub := (sub c)\<lparr>SendCandidates := []\<rparr>\<rparr>)
      else c)"

definition negotiate_step3 :: "World \<Rightarrow> Client \<Rightarrow> Client" where
  "negotiate_step3 w c =
     (if length (RecvCandidates (sub c)) > 0 then
        (let c = negotiate_recv w (RecvCandidates (sub c)) c
         in c\<lparr>sub := (sub c)\<lparr>RecvCandidates := []\<rparr>\<rparr>)
      else c)"

definition negotiate :: "World \<Rightarrow> SessionDescription \<Rightarrow> Client \<Rightarrow> error option \<times> Client" where
  "negotiate w sdp c =
     (let c = logf Debugf ''id=%v Negotiate sdp=%v'' [LStr (uid c), LStr sdp] c;
          (err, c) = pc_SetRemoteDescription w sub_pc sdp c
      in case err of
           Some e \<Rightarrow>
             (Some e,
              logf Errorf ''id=%v Negotiate c.sub.pc.SetRemoteDescription err=%v''
                [LStr (uid c), LErr e] c)
         | None \<Rightarrow>
             (let c = negotiate_step2 c;
                  c = negotiate_step3 w c;
                  ((answer, err), c) = pc_CreateAnswer w sub_pc c
              in case err of
                   Some e \<Rightarrow> (Some e, logf Errorf ''id=%v err=%v'' [LStr (uid c), LErr e] c)
                 | None \<Rightarrow>
                     (let (err, c) = pc_SetLocalDescription w sub_pc answer c
                      in case err of
                           Some e \<Rightarrow>
                             (Some e, logf Errorf ''id=%v err=%v'' [LStr (uid c), LErr e] c)
                         | None \<Rightarrow> (None, emit (signal_answer answer) c))))"

section \<open>The control channel and its command queue\<close>

text \<open>The loop of \<open>selectRemote\<close> over the cached commands. A command that does not
  marshal is skipped (\<open>continue\<close>); a failed send is logged and the loop goes on.\<close>

fun selectRemote_cached :: "World \<Rightarrow> Call list \<Rightarrow> Client \<Rightarrow> Client" where
  "selectRemote_cached w [] c = c"
| "selectRemote_cached w (cmd # cmds) c =
     (let c = logf Debugf ''id=%v c.sub.api.Send cmd=%v'' [LStr (uid c), LCall cmd] c;
          (marshalled, err) = json_Marshal w cmd
      in case err of
           Some e \<Rightarrow> selectRemote_cached w cmds c
         | None \<Rightarrow>
             (let (err, c) = api_Send w marshalled c;
                  c = (case err of
                         Some e \<Rightarrow> logf Errorf ''err=%v'' [LErr e] c
                       | None \<Rightarrow> c);
                  c = emit (time_Sleep 10) c
              in selectRemote_cached w cmds c))"

text \<open>The block \<open>send cached cmd\<close> of \<open>selectRemote\<close>.\<close>

definition selectRemote_flush :: "World \<Rightarrow> Client \<Rightarrow> Client" where
  "selectRemote_flush w c =
     (if length (apiQueue c) > 0 then
        (let c = selectRemote_cached w (apiQueue c) c
         in c\<lparr>apiQueue := []\<rparr>)
      else c)"

definition selectRemote ::
  "World \<Rightarrow> string \<Rightarrow> string \<Rightarrow> bool \<Rightarrow> Client \<Rightarrow> error option \<times> Client" where
  "selectRemote w streamId video audio c =
     (let c = logf Debugf ''id=%v streamId=%v video=%v audio=%v''
                [LStr (uid c), LStr streamId, LStr video, LBool audio] c;
          call = \<lparr>StreamID = streamId, Video = video, Audio = audio\<rparr>;
          (not_ready, c) =
            (case api (sub c) of
               None \<Rightarrow> (True, c)
             | Some dc \<Rightarrow>
                 (let (st, c) = api_ReadyState w c in (st \<noteq> DataChannelStateOpen, c)))
      in if not_ready then
           (let c = logf Debugf ''id=%v append to c.apiQueue call=%v''
                      [LStr (uid c), LCall call] c;
                c = c\<lparr>apiQueue := apiQueue c @ [call]\<rparr>
            in (None, c))
         else
           (let c = selectRemote_flush w c;
                c = logf Debugf ''id=%v c.sub.api.Send call=%v'' [LStr (uid c), LCall call] c;
                (marshalled, err) = json_Marshal w call
            in case err of
                 Some e \<Rightarrow> (Some e, c)
               | None \<Rightarrow>
                   (let (err, c) = api_Send w marshalled c;
                        c = (case err of
                               Some e \<Rightarrow> logf Errorf ''id=%v err=%v'' [LStr (uid c), LErr e] c
                             | None \<Rightarrow> c)
                    in (err, c))))"

text \<open>The handler that \<open>Join\<close> puts on the control channel for its open event.\<close>

fun OnOpen_cached :: "World \<Rightarrow> Call list \<Rightarrow> Client \<Rightarrow> Client" where
  "OnOpen_cached w [] c = c"
| "OnOpen_cached w (cmd # cmds) c =
     (let c = logf Debugf ''%v c.sub.api.OnOpen send cmd=%v'' [LStr (uid c), LCall cmd] c;
          (marshalled, err) = json_Marshal w cmd
      in case err of
           Some e \<Rightarrow> OnOpen_cached w cmds c
         | None \<Rightarrow>
             (let (err, c) = api_Send w marshalled c;
                  c = (case err of
                         Some e \<Rightarrow> logf Errorf ''id=%v err=%v'' [LStr (uid c), LErr e] c
                       | None \<Rightarrow> c);
                  c = emit (time_Sleep 10) c
              in OnOpen_cached w cmds c))"

definition api_OnOpen :: "World \<Rightarrow> Client \<Rightarrow> Client" where
  "api_OnOpen w c =
     (if length (apiQueue c) > 0 then
        (let c = OnOpen_cached w (apiQueue c) c
         in c\<lparr>apiQueue := []\<rparr>)
      else c)"

text \<open>The handler that \<open>Join\<close> puts on the subscriber connection for a new data
  channel: the channel labelled \<open>API_CHANNEL\<close> becomes \<open>c.sub.api\<close> and gets the open
  handler; any other channel goes to the user's callback, if there is one.\<close>

definition sub_OnDataChannel :: "DataChannel \<Rightarrow> Client \<Rightarrow> Client" where
  "sub_OnDataChannel dc c =
     (let c = logf Debugf ''id=%v [c.sub.pc.OnDataChannel] got dc %v''
                [LStr (uid c), LStr (Label dc)] c
      in if Label dc = API_CHANNEL then
           (let c = logf Debugf ''%v got dc %v'' [LStr (uid c), LStr (Label dc)] c;
                c = c\<lparr>sub := (sub c)\<lparr>api := Some dc\<rparr>\<rparr>
            in emit dc_OnOpen c)
         else
           (let c = logf Debugf ''%v got dc %v'' [LStr (uid c), LStr (Label dc)] c
            in case OnDataChannelFunc c of
                 Some f \<Rightarrow> emit (user_OnDataChannel dc) c
               | None \<Rightarrow> c))"

subsection \<open>The open handler and selectRemote running at the same time\<close>

text \<open>
  The engine calls the open handler on a goroutine of its own, the application calls
  \<open>selectRemote\<close> on another one, and client.go takes no lock around \<open>c.apiQueue\<close>
  (the only lock of the client, \<open>streamLock\<close>, guards \<open>remoteStreamId\<close>). So the two
  can overlap, and each flush loop sleeps 10 ms after every send. An \<open>activity\<close> is the
  place one of the two has reached:
  \<^item> about to test \<open>len(c.apiQueue) > 0\<close>, or the channel;
  \<^item> inside its \<open>for ... range c.apiQueue\<close> loop, with the commands still to visit
    (\<open>range\<close> reads the slice once, when the loop starts, so a later assignment to
    \<open>c.apiQueue\<close> does not change them);
  \<^item> in \<open>selectRemote\<close>, about to send its own command;
  \<^item> returned.
\<close>

datatype activity =
    OnOpen_test
  | OnOpen_range "Call list"
  | selectRemote_test string string bool
  | selectRemote_range "Call list" Call
  | selectRemote_this Call
  | returned "error option"

text \<open>
  One stretch of an activity, up to the next point where the other one may run: the
  test at the head, one iteration of a flush loop (it ends with the sleep), the
  assignment of the empty queue after the loop, the send of the new command. The
  iterations are the loops of the source run on one command.
\<close>

fun advance :: "World \<Rightarrow> activity \<Rightarrow> Client \<Rightarrow> activity \<times> Client" where
  "advance w OnOpen_test c =
     (if length (apiQueue c) > 0 then (OnOpen_range (apiQueue c), c)
      else (returned None, c))"
| "advance w (OnOpen_range (cmd # cmds)) c = (OnOpen_range cmds, OnOpen_cached w [cmd] c)"
| "advance w (OnOpen_range []) c = (returned None, c\<lparr>apiQueue := []\<rparr>)"
| "advance w (selectRemote_test streamId video audio) c =
     (let c = logf Debugf ''id=%v streamId=%v video=%v audio=%v''
                [LStr (uid c), LStr streamId, LStr video, LBool audio] c;
          call = \<lparr>StreamID = streamId, Video = video, Audio = audio\<rparr>;
          (not_ready, c) =
            (case api (sub c) of
               None \<Rightarrow> (True, c)
             | Some dc \<Rightarrow>
                 (let (st, c) = api_ReadyState w c in (st \<noteq> DataChannelStateOpen, c)))
      in if not_ready then
           (let c = logf Debugf ''id=%v append to c.apiQueue call=%v''
                      [LStr (uid c), LCall call] c;
                c = c\<lparr>apiQueue := apiQueue c @ [call]\<rparr>
            in (returned None, c))
         else if length (apiQueue c) > 0 then (selectRemote_range (apiQueue c) call, c)
         else (selectRemote_this call, c))"
| "advance w (selectRemote_range (cmd # cmds) call) c =
     (selectRemote_range cmds call, selectRemote_cached w [cmd] c)"
| "advance w (selectRemote_range [] call) c = (selectRemote_this call, c\<lparr>apiQueue := []\<rparr>)"
| "advance w (selectRemote_this call) c =
     (let c = logf Debugf ''id=%v c.sub.api.Send call=%v'' [LStr (uid c), LCall call] c;
          (marshalled, err) = json_Marshal w call
      in case err of
           Some e \<Rightarrow> (returned (Some e), c)
         | None \<Rightarrow>
             (let (err, c) = api_Send w marshalled c;
                  c = (case err of
                         Some e \<Rightarrow> logf Errorf ''id=%v err=%v'' [LStr (uid c), LErr e] c
                       | None \<Rightarrow> c)
              in (returned err, c)))"
| "advance w (returned r) c = (returned r, c)"

text \<open>A schedule says whose turn it is, stretch by stretch: the open handler's or the
  caller's of \<open>selectRemote\<close>.\<close>

datatype turn = Handler | Caller

fun interleave ::
  "World \<Rightarrow> turn list \<Rightarrow> activity \<times> activity \<Rightarrow> Client \<Rightarrow> (activity \<times> activity) \<times> Client" where
  "interleave w [] hs c = (hs, c)"
| "interleave w (Handler # ts) (h, s) c =
     (let (h', c') = advance w h c in interleave w ts (h', s) c')"
| "interleave w (Caller # ts) (h, s) c =
     (let (s', c') = advance w s c in interleave w ts (h, s') c')"

text \<open>The payloads sent on the control channel in a record of calls, in order.\<close>

fun sent :: "event list \<Rightarrow> bytes list" where
  "sent [] = []"
| "sent (dc_Send b # es) = b # sent es"
| "sent (e # es) = sent es"

definition marshals :: "World \<Rightarrow> bool" where
  "marshals w = (\<forall>cmd. snd (json_Marshal w cmd) = None)"

definition encode :: "World \<Rightarrow> Call \<Rightarrow> bytes" where
  "encode w cmd = fst (json_Marshal w cmd)"

section \<open>Track events\<close>

definition Subscribe :: "World \<Rightarrow> string list \<Rightarrow> bool \<Rightarrow> Client \<Rightarrow> error option \<times> Client" where
  "Subscribe w trackIds enabled c = do_signal_Subscribe w trackIds enabled c"

text \<open>The closure that \<open>trackEvent\<close> installs when the user gave no handler.\<close>

definition default_OnTrackEvent :: "World \<Rightarrow> TrackEvent \<Rightarrow> Client \<Rightarrow> Client" where
  "default_OnTrackEvent w event c =
     (let c = logf Infof ''OnTrackEvent: %+v'' [LEvent event] c
      in if State event = TrackAdd then
           (let trackIds = map ID (Tracks event);
                (err, c) = Subscribe w trackIds True c
            in case err of
                 Some e \<Rightarrow>
                   logf Errorf ''Subscribe trackIds=%v error: %v'' [LStrs trackIds, LErr e] c
               | None \<Rightarrow> c)
         else c)"

definition call_OnTrackEvent :: "World \<Rightarrow> TrackEventFunc \<Rightarrow> TrackEvent \<Rightarrow> Client \<Rightarrow> Client" where
  "call_OnTrackEvent w f event c =
     (case f of
        user_func \<Rightarrow> emit (user_OnTrackEvent event) c
      | default_func \<Rightarrow> default_OnTrackEvent w event c)"

definition trackEvent :: "World \<Rightarrow> TrackEvent \<Rightarrow> Client \<Rightarrow> Client" where
  "trackEvent w event c =
     (case OnTrackEvent c of
        None \<Rightarrow>
          (let c = logf Errorf ''c.OnTrackEvent == nil use default one'' [] c;
               c = c\<lparr>OnTrackEvent := Some default_func\<rparr>
           in call_OnTrackEvent w default_func event c)
      | Some f \<Rightarrow> call_OnTrackEvent w f event c)"

section \<open>Sample values\<close>

text \<open>A world in which every call succeeds, the control channel is open and no peer
  connection has a remote description yet; and a client with identity \<open>u1\<close> that has
  done nothing so far.\<close>

definition world_ok :: World where
  "world_ok =
     \<lparr>res_CreateOffer = (\<lambda>h p. (''offer'', None)),
      res_CreateAnswer = (\<lambda>h p. (''answer'', None)),
      res_SetLocalDescription = (\<lambda>h p d. None),
      res_SetRemoteDescription = (\<lambda>h p d. None),
      res_CurrentRemoteDescription = (\<lambda>h p. None),
      res_AddICECandidate = (\<lambda>h p cand. None),
      res_AddTrack = (\<lambda>h p t. None),
      res_RemoveTrack = (\<lambda>h p s. None),
      res_signal_Join = (\<lambda>h s u offer. None),
      res_signal_Subscribe = (\<lambda>h trackIds enabled. None),
      res_ReadyState = (\<lambda>h. DataChannelStateOpen),
      res_Send = (\<lambda>h b. None),
      res_GetVideoTrack = (\<lambda>h. (''video'', None)),
      res_GetAudioTrack = (\<lambda>h. (''audio'', None)),
      res_GetSendBandwidth = (\<lambda>h cycle. 0),
      json_Marshal =
        (\<lambda>cmd. (StreamID cmd @ '','' @ Video cmd @ '','' @
                  (if Audio cmd then ''true'' else ''false''), None))\<rparr>"

definition transport_new :: Transport where
  "transport_new = \<lparr>api = None, RecvCandidates = [], SendCandidates = []\<rparr>"

definition client_u1 :: Client where
  "client_u1 =
     \<lparr>uid = ''u1'', sid = [], pub = transport_new, sub = transport_new,
      OnDataChannelFunc = None, OnTrackEvent = None, producer = None, recvByte = 0,
      apiQueue = [], calls = [], logged = []\<rparr>"

text \<open>Two worlds with one failing collaborator each: an engine that cannot create an
  offer, and a producer that cannot build its video track.\<close>

definition world_no_offer :: World where
  "world_no_offer =
     world_ok\<lparr>res_CreateOffer := (\<lambda>h p. ([], Some (Err ''create offer failed'')))\<rparr>"


text \<open>An engine that refuses the remote description; an engine that has a remote
  description on both connections and refuses every candidate; a client whose
  subscriber transport holds one outbound and two inbound candidates.\<close>

definition world_no_remote :: World where
  "world_no_remote =
     world_ok\<lparr>res_SetRemoteDescription := (\<lambda>h p d. Some (Err ''set remote failed''))\<rparr>"

definition world_bad_candidate :: World where
  "world_bad_candidate =
     world_ok\<lparr>res_CurrentRemoteDescription := (\<lambda>h p. Some ''remote''),
               res_AddICECandidate := (\<lambda>h p cand. Some (Err ''bad candidate''))\<rparr>"

definition client_buffered :: Client where
  "client_buffered =
     client_u1\<lparr>sub := transport_new\<lparr>RecvCandidates := [''r1'', ''r2''],
                                      SendCandidates := [''s1'']\<rparr>\<rparr>"

text \<open>The client after two commands were submitted with no control channel yet, and the
  control channel then arrived: both commands are queued and \<open>c.sub.api\<close> is set.\<close>

definition client_queued :: Client where
  "client_queued =
     sub_OnDataChannel (DataChannel API_CHANNEL)
       (snd (selectRemote world_ok ''str2'' ''low'' False
          (snd (selectRemote world_ok ''str1'' ''high'' True client_u1))))"

text \<open>Two track events in state \<open>TrackAdd\<close>: one with two tracks, a later one with one.\<close>

definition event_added :: TrackEvent where
  "event_added =
     \<lparr>State = TrackAdd, Uid = ''u2'',
      Tracks = [\<lparr>ID = ''t1'', Track.StreamID = ''str1'', Kind = ''video'', Muted = False,
                 Simulcast = []\<rparr>,
                \<lparr>ID = ''t2'', Track.StreamID = ''str1'', Kind = ''audio'', Muted = False,
                 Simulcast = []\<rparr>]\<rparr>"

definition event_added_later :: TrackEvent where
  "event_added_later =
     \<lparr>State = TrackAdd, Uid = ''u3'',
      Tracks = [\<lparr>ID = ''t3'', Track.StreamID = ''str2'', Kind = ''video'', Muted = False,
                 Simulcast = []\<rparr>]\<rparr>"


section \<open>Basic facts\<close>

lemma emit_simps [simp]:
  "calls (emit e c) = calls c @ [e]"
  "logged (emit e c) = logged c"
  "uid (emit e c) = uid c"
  "pub (emit e c) = pub c"
  "sub (emit e c) = sub c"
  "apiQueue (emit e c) = apiQueue c"
  "recvByte (emit e c) = recvByte c"
  "producer (emit e c) = producer c"
  "OnTrackEvent (emit e c) = OnTrackEvent c"
  by (simp_all add: emit_def)

lemma logf_simps [simp]:
  "calls (logf l f a c) = calls c"
  "logged (logf l f a c) = logged c @ [(l, f, a)]"
  "uid (logf l f a c) = uid c"
  "pub (logf l f a c) = pub c"
  "sub (logf l f a c) = sub c"
  "apiQueue (logf l f a c) = apiQueue c"
  "recvByte (logf l f a c) = recvByte c"
  "producer (logf l f a c) = producer c"
  "OnTrackEvent (logf l f a c) = OnTrackEvent c"
  by (simp_all add: logf_def)

lemma onNegotiationNeeded_calls:
  "calls (onNegotiationNeeded w c) =
     calls c @ [CreateOffer pub_pc,
                SetLocalDescription pub_pc (fst (res_CreateOffer w (calls c) pub_pc)),
                signal_offer (fst (res_CreateOffer w (calls c) pub_pc))]"
  by (simp add: onNegotiationNeeded_def pc_CreateOffer_def pc_SetLocalDescription_def Let_def
      split: prod.splits option.splits)

lemma onNegotiationNeeded_logged:
  "logged (onNegotiationNeeded w c) =
     logged c @
     (case snd (res_CreateOffer w (calls c) pub_pc) of
        Some e \<Rightarrow> [(Errorf, ''id=%v err=%v'', [LStr (uid c), LErr e])]
      | None \<Rightarrow> []) @
     (case res_SetLocalDescription w (calls c @ [CreateOffer pub_pc]) pub_pc
             (fst (res_CreateOffer w (calls c) pub_pc)) of
        Some e \<Rightarrow> [(Errorf, ''id=%v err=%v'', [LStr (uid c), LErr e])]
      | None \<Rightarrow> [])"
  by (simp add: onNegotiationNeeded_def pc_CreateOffer_def pc_SetLocalDescription_def Let_def
      split: prod.splits option.splits)

section \<open>negotiate: the order of the steps\<close>

lemma negotiate_send_calls:
  "calls (negotiate_send cands c) = calls c @ map (\<lambda>cand. signal_trickle cand SUBSCRIBER) cands"
  by (induction cands arbitrary: c) (simp_all add: Let_def)

lemma negotiate_send_sub: "sub (negotiate_send cands c) = sub c"
  by (induction cands arbitrary: c) (simp_all add: Let_def)

lemma negotiate_recv_calls:
  "calls (negotiate_recv w cands c) = calls c @ map (AddICECandidate sub_pc) cands"
  by (induction cands arbitrary: c) (simp_all add: Let_def pc_AddICECandidate_def)

lemma negotiate_recv_sub: "sub (negotiate_recv w cands c) = sub c"
  by (induction cands arbitrary: c) (simp_all add: Let_def pc_AddICECandidate_def)

lemma negotiate_step2_calls:
  "calls (negotiate_step2 c) =
     calls c @ map (\<lambda>cand. signal_trickle cand SUBSCRIBER) (SendCandidates (sub c))"
  by (simp add: negotiate_step2_def negotiate_send_calls Let_def)

lemma negotiate_step2_sub:
  "sub (negotiate_step2 c) = (sub c)\<lparr>SendCandidates := []\<rparr>"
  by (simp add: negotiate_step2_def negotiate_send_sub Let_def)

lemma negotiate_step3_calls:
  "calls (negotiate_step3 w c) = calls c @ map (AddICECandidate sub_pc) (RecvCandidates (sub c))"
  by (simp add: negotiate_step3_def negotiate_recv_calls Let_def)

lemma negotiate_step3_sub:
  "sub (negotiate_step3 w c) = (sub c)\<lparr>RecvCandidates := []\<rparr>"
  by (simp add: negotiate_step3_def negotiate_recv_sub Let_def)

lemmas negotiate_steps =
  negotiate_step2_calls negotiate_step2_sub negotiate_step3_calls negotiate_step3_sub

text \<open>
  C1. A call of \<open>negotiate\<close> with a remote offer first sets the remote description on
  the subscriber connection. If that fails (\<open>er\<close>), the error is returned and nothing
  else is called; the buffers stay as they were. Otherwise the calls that follow are, in
  this order: one \<open>signal.trickle\<close> for every buffered outbound candidate, in the order
  of the buffer; one \<open>AddICECandidate\<close> for every buffered inbound candidate, in the
  order of the buffer; \<open>CreateAnswer\<close>; then, when the answer was created,
  \<open>SetLocalDescription\<close> with it; then, when that succeeded, \<open>signal.answer\<close> with
  it. Both buffers are empty afterwards.
\<close>

theorem negotiate_order:
  assumes "res_SetRemoteDescription w (calls c) sub_pc sdp = er"
    and "h = calls c @ [SetRemoteDescription sub_pc sdp] @
             map (\<lambda>cand. signal_trickle cand SUBSCRIBER) (SendCandidates (sub c)) @
             map (AddICECandidate sub_pc) (RecvCandidates (sub c))"
    and "res_CreateAnswer w h sub_pc = (answer, ea)"
    and "res_SetLocalDescription w (h @ [CreateAnswer sub_pc]) sub_pc answer = el"
    and "negotiate w sdp c = (r, c')"
  shows "(er \<noteq> None \<longrightarrow>
            r = er \<and> calls c' = calls c @ [SetRemoteDescription sub_pc sdp] \<and> sub c' = sub c) \<and>
         (er = None \<longrightarrow>
            calls c' =
              h @ [CreateAnswer sub_pc] @
              (if ea = None then
                 [SetLocalDescription sub_pc answer] @
                 (if el = None then [signal_answer answer] else [])
               else []) \<and>
            SendCandidates (sub c') = [] \<and> RecvCandidates (sub c') = [] \<and>
            r = (if ea \<noteq> None then ea else el))"
proof (cases er)
  case (Some e)
  with assms(1,5) show ?thesis
    by (auto simp: negotiate_def pc_SetRemoteDescription_def Let_def)
next
  case None
  with assms show ?thesis
    by (auto simp: negotiate_def pc_SetRemoteDescription_def pc_CreateAnswer_def
        pc_SetLocalDescription_def negotiate_steps Let_def split: option.splits)
qed

theorem negotiate_order_witness:
  "calls (snd (negotiate world_ok ''remote offer'' client_buffered)) =
     [SetRemoteDescription sub_pc ''remote offer'', signal_trickle ''s1'' SUBSCRIBER,
      AddICECandidate sub_pc ''r1'', AddICECandidate sub_pc ''r2'', CreateAnswer sub_pc,
      SetLocalDescription sub_pc ''answer'', signal_answer ''answer''] \<and>
   SendCandidates (sub (snd (negotiate world_ok ''remote offer'' client_buffered))) = [] \<and>
   RecvCandidates (sub (snd (negotiate world_ok ''remote offer'' client_buffered))) = [] \<and>
   fst (negotiate world_no_remote ''remote offer'' client_buffered) =
     Some (Err ''set remote failed'') \<and>
   calls (snd (negotiate world_no_remote ''remote offer'' client_buffered)) =
     [SetRemoteDescription sub_pc ''remote offer''] \<and>
   sub (snd (negotiate world_no_remote ''remote offer'' client_buffered)) = sub client_buffered"
  using negotiate_order [where w = world_ok and sdp = "''remote offer''"
      and c = client_buffered and er = None and answer = "''answer''" and ea = None
      and el = None, OF _ refl _ _ surjective_pairing]
    negotiate_order [where w = world_no_remote and sdp = "''remote offer''"
      and c = client_buffered and er = "Some (Err ''set remote failed'')"
      and answer = "''answer''" and ea = None and el = None,
      OF _ refl _ _ surjective_pairing]
  by (simp add: world_no_remote_def world_ok_def client_buffered_def client_u1_def
      transport_new_def)

section \<open>trickle: a candidate waits for the remote description\<close>

text \<open>
  C2. \<open>trickle\<close> asks the peer connection of the target transport \<open>t\<close> (the
  subscriber's for \<open>SUBSCRIBER\<close>, the publisher's for any other target) for its
  current remote description \<open>rd\<close>. When there is none, the candidate is appended to
  the inbound buffer of \<open>t\<close> and no \<open>AddICECandidate\<close> is called. When there is one,
  \<open>AddICECandidate\<close> is called at once and the buffers are untouched; if it fails, the
  error is the last line of the log and the function ends as usual (it has no error
  result). The other transport is never touched, and every \<open>AddICECandidate\<close> that
  \<open>trickle\<close> makes is for this candidate, on \<open>t\<close>, with a remote description
  present.
\<close>

theorem trickle_buffers_until_remote:
  assumes "t = (if target = SUBSCRIBER then sub_pc else pub_pc)"
    and "u = (if target = SUBSCRIBER then pub_pc else sub_pc)"
    and "rd = res_CurrentRemoteDescription w (calls c) t"
    and "c' = trickle w candidate target c"
  shows "(rd = None \<longrightarrow>
            RecvCandidates (transport t c') = RecvCandidates (transport t c) @ [candidate] \<and>
            calls c' = calls c @ [CurrentRemoteDescription t]) \<and>
         (rd \<noteq> None \<longrightarrow>
            calls c' = calls c @ [CurrentRemoteDescription t, AddICECandidate t candidate] \<and>
            transport t c' = transport t c \<and>
            (\<forall>e. res_AddICECandidate w (calls c @ [CurrentRemoteDescription t]) t candidate =
                   Some e \<longrightarrow>
                 last (logged c') = (Errorf, ''id=%v err=%v'', [LStr (uid c), LErr e]))) \<and>
         transport u c' = transport u c \<and>
         (\<forall>p x. AddICECandidate p x \<in> set (drop (length (calls c)) (calls c')) \<longrightarrow>
                p = t \<and> x = candidate \<and> rd \<noteq> None)"
  using assms
  by (auto simp: trickle_def pc_CurrentRemoteDescription_def pc_AddICECandidate_def
      transport_def set_transport_def Let_def split: option.splits)

theorem trickle_buffers_until_remote_witness:
  "RecvCandidates (sub (trickle world_ok ''r1'' SUBSCRIBER client_u1)) = [''r1''] \<and>
   calls (trickle world_ok ''r1'' SUBSCRIBER client_u1) = [CurrentRemoteDescription sub_pc] \<and>
   calls (trickle world_bad_candidate ''r2'' PUBLISHER client_u1) =
     [CurrentRemoteDescription pub_pc, AddICECandidate pub_pc ''r2''] \<and>
   pub (trickle world_bad_candidate ''r2'' PUBLISHER client_u1) = pub client_u1 \<and>
   last (logged (trickle world_bad_candidate ''r2'' PUBLISHER client_u1)) =
     (Errorf, ''id=%v err=%v'', [LStr ''u1'', LErr (Err ''bad candidate'')])"
  using trickle_buffers_until_remote [where w = world_ok and c = client_u1
      and target = SUBSCRIBER and candidate = "''r1''", OF refl refl refl refl]
    trickle_buffers_until_remote [where w = world_bad_candidate and c = client_u1
      and target = PUBLISHER and candidate = "''r2''", OF refl refl refl refl]
  by (simp add: world_bad_candidate_def world_ok_def client_u1_def transport_def
      transport_new_def PUBLISHER_def SUBSCRIBER_def)

section \<open>The command queue\<close>

lemma sent_append: "sent (xs @ ys) = sent xs @ sent ys"
  by (induction xs rule: sent.induct) simp_all

lemma marshals_eq: "marshals w \<Longrightarrow> json_Marshal w cmd = (encode w cmd, None)"
  by (simp add: marshals_def encode_def prod_eq_iff)

lemma selectRemote_cached_sent:
  "marshals w \<Longrightarrow>
   sent (calls (selectRemote_cached w cmds c)) = sent (calls c) @ map (encode w) cmds"
  by (induction cmds arbitrary: c)
    (simp_all add: Let_def api_Send_def sent_append marshals_eq split: prod.splits option.splits)

lemma selectRemote_cached_fields:
  "apiQueue (selectRemote_cached w cmds c) = apiQueue c"
  "sub (selectRemote_cached w cmds c) = sub c"
  by (induction cmds arbitrary: c)
    (simp_all add: Let_def api_Send_def split: prod.splits option.splits)

lemma OnOpen_cached_sent:
  "marshals w \<Longrightarrow>
   sent (calls (OnOpen_cached w cmds c)) = sent (calls c) @ map (encode w) cmds"
  by (induction cmds arbitrary: c)
    (simp_all add: Let_def api_Send_def sent_append marshals_eq split: prod.splits option.splits)

lemma OnOpen_cached_fields:
  "apiQueue (OnOpen_cached w cmds c) = apiQueue c"
  "sub (OnOpen_cached w cmds c) = sub c"
  by (induction cmds arbitrary: c)
    (simp_all add: Let_def api_Send_def split: prod.splits option.splits)

lemma selectRemote_flush_facts:
  "marshals w \<Longrightarrow>
   sent (calls (selectRemote_flush w c)) = sent (calls c) @ map (encode w) (apiQueue c)"
  "apiQueue (selectRemote_flush w c) = []"
  "sub (selectRemote_flush w c) = sub c"
  by (simp_all add: selectRemote_flush_def selectRemote_cached_sent selectRemote_cached_fields
      Let_def)

lemma api_OnOpen_facts:
  "marshals w \<Longrightarrow>
   sent (calls (api_OnOpen w c)) = sent (calls c) @ map (encode w) (apiQueue c)"
  "apiQueue (api_OnOpen w c) = []"
  "sub (api_OnOpen w c) = sub c"
  by (simp_all add: api_OnOpen_def OnOpen_cached_sent OnOpen_cached_fields Let_def)

lemma selectRemote_deferred:
  assumes "api (sub c) = None \<or> res_ReadyState w (calls c) \<noteq> DataChannelStateOpen"
  shows "fst (selectRemote w streamId video audio c) = None"
    "apiQueue (snd (selectRemote w streamId video audio c)) =
       apiQueue c @ [\<lparr>StreamID = streamId, Video = video, Audio = audio\<rparr>]"
    "sent (calls (snd (selectRemote w streamId video audio c))) = sent (calls c)"
  using assms
  by (auto simp: selectRemote_def api_ReadyState_def Let_def sent_append split: option.splits)

lemma selectRemote_open:
  assumes "marshals w" "api (sub c) \<noteq> None"
    "res_ReadyState w (calls c) = DataChannelStateOpen"
  shows "sent (calls (snd (selectRemote w streamId video audio c))) =
       sent (calls c) @ map (encode w) (apiQueue c) @
       [encode w \<lparr>StreamID = streamId, Video = video, Audio = audio\<rparr>]"
    "apiQueue (snd (selectRemote w streamId video audio c)) = []"
  using assms
  by (auto simp: selectRemote_def api_ReadyState_def api_Send_def Let_def sent_append
      selectRemote_flush_facts marshals_eq split: option.splits prod.splits)

lemma sub_OnDataChannel_control:
  assumes "Label dc = API_CHANNEL"
  shows "api (sub (sub_OnDataChannel dc c)) = Some dc"
    "calls (sub_OnDataChannel dc c) = calls c @ [dc_OnOpen]"
    "apiQueue (sub_OnDataChannel dc c) = apiQueue c"
  using assms by (simp_all add: sub_OnDataChannel_def Let_def)

lemma marshals_world_ok: "marshals world_ok"
  by (simp add: marshals_def world_ok_def)

text \<open>
  When the open handler and \<open>selectRemote\<close> do not overlap, the queue works as meant
  (\<open>json.Marshal\<close> does not fail on a \<open>Call\<close>; this is \<open>marshals\<close>): a command
  submitted while the channel is absent or not open is queued without error and nothing
  is sent; the arrival of the channel labelled \<open>API_CHANNEL\<close> sets \<open>c.sub.api\<close>,
  registers the open handler and leaves the queue as it is; the open handler, and
  \<open>selectRemote\<close> with the channel open, send the whole queue in order (the latter
  then its own command) and leave the queue empty.
\<close>

lemma command_queue_serial:
  assumes "marshals w"
    and "call = \<lparr>StreamID = streamId, Video = video, Audio = audio\<rparr>"
  shows "(api (sub c) = None \<or> res_ReadyState w (calls c) \<noteq> DataChannelStateOpen \<longrightarrow>
            fst (selectRemote w streamId video audio c) = None \<and>
            apiQueue (snd (selectRemote w streamId video audio c)) = apiQueue c @ [call] \<and>
            sent (calls (snd (selectRemote w streamId video audio c))) = sent (calls c)) \<and>
         (Label dc = API_CHANNEL \<longrightarrow>
            api (sub (sub_OnDataChannel dc c)) = Some dc \<and>
            calls (sub_OnDataChannel dc c) = calls c @ [dc_OnOpen] \<and>
            apiQueue (sub_OnDataChannel dc c) = apiQueue c) \<and>
         (sent (calls (api_OnOpen w c)) = sent (calls c) @ map (encode w) (apiQueue c) \<and>
          apiQueue (api_OnOpen w c) = []) \<and>
         (api (sub c) \<noteq> None \<and> res_ReadyState w (calls c) = DataChannelStateOpen \<longrightarrow>
            sent (calls (snd (selectRemote w streamId video audio c))) =
              sent (calls c) @ map (encode w) (apiQueue c) @ [encode w call] \<and>
            apiQueue (snd (selectRemote w streamId video audio c)) = [])"
  using assms selectRemote_deferred [of c w streamId video audio]
    selectRemote_open [of w c streamId video audio] api_OnOpen_facts(1,2) [of w c]
    sub_OnDataChannel_control [of dc c]
  by simp

text \<open>An activity that runs alone, with no turn of the other one in between, is the
  function of the source.\<close>

lemma OnOpen_cached_Cons:
  "OnOpen_cached w (cmd # cmds) c = OnOpen_cached w cmds (OnOpen_cached w [cmd] c)"
  by (simp add: Let_def split: prod.splits option.splits)

lemma selectRemote_cached_Cons:
  "selectRemote_cached w (cmd # cmds) c =
     selectRemote_cached w cmds (selectRemote_cached w [cmd] c)"
  by (simp add: Let_def split: prod.splits option.splits)

lemma returned_Handler:
  "interleave w (replicate n Handler) (returned r, s) c = ((returned r, s), c)"
  by (induction n) simp_all

lemma returned_Caller:
  "interleave w (replicate n Caller) (h, returned r) c = ((h, returned r), c)"
  by (induction n) simp_all

lemma OnOpen_range_alone:
  "interleave w (replicate (Suc (length cmds)) Handler) (OnOpen_range cmds, s) c =
     ((returned None, s), (OnOpen_cached w cmds c)\<lparr>apiQueue := []\<rparr>)"
proof (induction cmds arbitrary: c)
  case Nil
  show ?case by simp
next
  case (Cons cmd cmds)
  have "interleave w (replicate (Suc (length (cmd # cmds))) Handler)
          (OnOpen_range (cmd # cmds), s) c =
        interleave w (replicate (Suc (length cmds)) Handler) (OnOpen_range cmds, s)
          (OnOpen_cached w [cmd] c)"
    by simp
  also have "\<dots> = ((returned None, s),
                   (OnOpen_cached w cmds (OnOpen_cached w [cmd] c))\<lparr>apiQueue := []\<rparr>)"
    by (rule Cons.IH)
  finally show ?case by (simp only: OnOpen_cached_Cons [symmetric])
qed

lemma OnOpen_alone:
  "interleave w (replicate (Suc (Suc (length (apiQueue c)))) Handler) (OnOpen_test, s) c =
     ((returned None, s), api_OnOpen w c)"
proof (cases "apiQueue c")
  case Nil
  then show ?thesis by (simp add: api_OnOpen_def)
next
  case (Cons cmd cmds)
  then have "interleave w (replicate (Suc (Suc (length (apiQueue c)))) Handler)
               (OnOpen_test, s) c =
             interleave w (replicate (Suc (length (apiQueue c))) Handler)
               (OnOpen_range (apiQueue c), s) c"
    by simp
  then show ?thesis
    using Cons by (simp only: OnOpen_range_alone) (simp add: api_OnOpen_def)
qed

lemma selectRemote_range_alone:
  "interleave w (replicate (Suc (Suc (length cmds))) Caller) (h, selectRemote_range cmds call) c =
     ((h, fst (advance w (selectRemote_this call)
                 ((selectRemote_cached w cmds c)\<lparr>apiQueue := []\<rparr>))),
      snd (advance w (selectRemote_this call)
             ((selectRemote_cached w cmds c)\<lparr>apiQueue := []\<rparr>)))"
proof (induction cmds arbitrary: c)
  case Nil
  show ?case by (simp add: split_beta)
next
  case (Cons cmd cmds)
  have "interleave w (replicate (Suc (Suc (length (cmd # cmds)))) Caller)
          (h, selectRemote_range (cmd # cmds) call) c =
        interleave w (replicate (Suc (Suc (length cmds))) Caller)
          (h, selectRemote_range cmds call) (selectRemote_cached w [cmd] c)"
    by simp
  then show ?case
    by (simp only: Cons.IH selectRemote_cached_Cons [symmetric])
qed

lemma selectRemote_this_result:
  "advance w (selectRemote_this call) c = (a, c') \<Longrightarrow> \<exists>r. a = returned r"
  by (auto simp: Let_def split: prod.splits option.splits)

lemma selectRemote_alone:
  "interleave w (replicate (Suc (Suc (Suc (length (apiQueue c))))) Caller)
     (h, selectRemote_test streamId video audio) c =
     ((h, returned (fst (selectRemote w streamId video audio c))),
      snd (selectRemote w streamId video audio c))"
proof -
  define c1 where "c1 = logf Debugf ''id=%v streamId=%v video=%v audio=%v''
                [LStr (uid c), LStr streamId, LStr video, LBool audio] c"
  define call where "call = \<lparr>StreamID = streamId, Video = video, Audio = audio\<rparr>"
  show ?thesis
  proof (cases "api (sub c) = None \<or> res_ReadyState w (calls c) \<noteq> DataChannelStateOpen")
    case True
    then show ?thesis
      by (auto simp: selectRemote_def api_ReadyState_def Let_def returned_Caller
          split: option.splits)
  next
    case False
    then obtain dc where dc: "api (sub c) = Some dc"
      and op: "res_ReadyState w (calls c) = DataChannelStateOpen"
      by auto
    define c2 where "c2 = emit dc_ReadyState c1"
    have q: "apiQueue c2 = apiQueue c"
      by (simp add: c2_def c1_def)
    have sel: "selectRemote w streamId video audio c =
        (case advance w (selectRemote_this call) (selectRemote_flush w c2) of
           (a, c') \<Rightarrow> (case a of returned r \<Rightarrow> (r, c') | _ \<Rightarrow> (None, c')))"
      using dc op
      by (simp add: selectRemote_def api_ReadyState_def Let_def c1_def c2_def call_def
          split: prod.splits option.splits)
    show ?thesis
    proof (cases "apiQueue c")
      case Nil
      then have "interleave w (replicate (Suc (Suc (Suc (length (apiQueue c))))) Caller)
                   (h, selectRemote_test streamId video audio) c =
                 interleave w (replicate (Suc (Suc 0)) Caller) (h, selectRemote_this call) c2"
        using dc op by (simp add: api_ReadyState_def Let_def c1_def c2_def call_def)
      moreover obtain r c' where r: "advance w (selectRemote_this call) c2 = (returned r, c')"
        using selectRemote_this_result [of w call c2] by (metis surj_pair)
      moreover have "selectRemote_flush w c2 = c2"
        using Nil q by (simp add: selectRemote_flush_def)
      ultimately show ?thesis
        using sel returned_Caller [of w "Suc 0" h r c'] by simp
    next
      case (Cons cmd cmds)
      then have "interleave w (replicate (Suc (Suc (Suc (length (apiQueue c))))) Caller)
                   (h, selectRemote_test streamId video audio) c =
                 interleave w (replicate (Suc (Suc (length (apiQueue c2)))) Caller)
                   (h, selectRemote_range (apiQueue c2) call) c2"
        using dc op q by (simp add: api_ReadyState_def Let_def c1_def c2_def call_def)
      moreover have fl: "selectRemote_flush w c2 =
          (selectRemote_cached w (apiQueue c2) c2)\<lparr>apiQueue := []\<rparr>"
        using Cons q by (simp add: selectRemote_flush_def Let_def)
      moreover obtain r c' where r:
        "advance w (selectRemote_this call) (selectRemote_flush w c2) = (returned r, c')"
        using selectRemote_this_result [of w call "selectRemote_flush w c2"]
        by (metis surj_pair)
      ultimately show ?thesis
        using sel by (simp only: selectRemote_range_alone) simp
    qed
  qed
qed

lemma client_queued_state:
  "apiQueue client_queued =
     [\<lparr>StreamID = ''str1'', Video = ''high'', Audio = True\<rparr>,
      \<lparr>StreamID = ''str2'', Video = ''low'', Audio = False\<rparr>]"
  "api (sub client_queued) = Some (DataChannel API_CHANNEL)"
  "calls client_queued = [dc_OnOpen]"
  by (simp_all add: client_queued_def selectRemote_def sub_OnDataChannel_def client_u1_def
      transport_new_def Let_def)

text \<open>With the same queue, the open handler first and \<open>selectRemote\<close> after it: each
  command is sent once, in order.\<close>

lemma command_queue_in_turn:
  "sent (calls (snd (interleave world_ok
     [Handler, Handler, Handler, Handler, Caller, Caller]
     (OnOpen_test, selectRemote_test ''str3'' ''none'' False) client_queued))) =
     [''str1,high,true'', ''str2,low,false'', ''str3,none,false'']"
  by (simp add: client_queued_state world_ok_def api_ReadyState_def api_Send_def Let_def)

text \<open>
  C3. The claim fails on the code when the open handler and a call of \<open>selectRemote\<close>
  overlap, which nothing in client.go prevents. Two commands are queued and the control
  channel is there; its open event fires; the open handler takes the queue, sends the
  first command and sleeps; \<open>selectRemote\<close> is called now, finds the channel open and
  the queue not yet emptied, sends both queued commands, empties the queue and sends its
  own command; the open handler wakes up and sends the second command. Both activities
  return without error, and the commands queued once have been sent twice each, the
  second one also after the command submitted last.
\<close>

theorem command_queue_race:
  "apiQueue client_queued =
     [\<lparr>StreamID = ''str1'', Video = ''high'', Audio = True\<rparr>,
      \<lparr>StreamID = ''str2'', Video = ''low'', Audio = False\<rparr>] \<and>
   sent (calls client_queued) = [] \<and>
   fst (interleave world_ok
     [Handler, Handler, Caller, Caller, Caller, Caller, Caller, Handler, Handler]
     (OnOpen_test, selectRemote_test ''str3'' ''none'' False) client_queued) =
     (returned None, returned None) \<and>
   sent (calls (snd (interleave world_ok
     [Handler, Handler, Caller, Caller, Caller, Caller, Caller, Handler, Handler]
     (OnOpen_test, selectRemote_test ''str3'' ''none'' False) client_queued))) =
     [''str1,high,true'', ''str1,high,true'', ''str2,low,false'', ''str3,none,false'',
      ''str2,low,false'']"
  by (simp add: client_queued_state world_ok_def api_ReadyState_def api_Send_def Let_def)

section \<open>Join\<close>

text \<open>
  C4. After registering its handlers, \<open>Join\<close> calls \<open>CreateOffer\<close> on the publisher
  connection, then \<open>SetLocalDescription\<close> with that offer, then \<open>signal.Join\<close> with
  the session identifier, the client's identity and that offer. A failing step
  (\<open>eo\<close>, \<open>el\<close>, \<open>ej\<close>) ends the call with its error, and no later step is made:
  when the offer cannot be created, nothing is set locally and nothing is sent.
\<close>

theorem Join_steps:
  assumes "h = calls c @ [OnTrack sub_pc, OnDataChannel sub_pc, OnICEConnectionStateChange sub_pc]"
    and "res_CreateOffer w h pub_pc = (offer, eo)"
    and "res_SetLocalDescription w (h @ [CreateOffer pub_pc]) pub_pc offer = el"
    and "res_signal_Join w (h @ [CreateOffer pub_pc, SetLocalDescription pub_pc offer])
           s (uid c) offer = ej"
  shows "calls (snd (Join w s c)) =
           h @ [CreateOffer pub_pc] @
           (if eo = None then
              [SetLocalDescription pub_pc offer] @
              (if el = None then [signal_Join s (uid c) offer] else [])
            else []) \<and>
         fst (Join w s c) = (if eo \<noteq> None then eo else if el \<noteq> None then el else ej)"
  using assms
  by (auto simp: Join_def pc_CreateOffer_def pc_SetLocalDescription_def do_signal_Join_def
      Let_def split: option.splits prod.splits)

theorem Join_steps_witness:
  "calls (snd (Join world_ok ''s1'' client_u1)) =
     [OnTrack sub_pc, OnDataChannel sub_pc, OnICEConnectionStateChange sub_pc,
      CreateOffer pub_pc, SetLocalDescription pub_pc ''offer'',
      signal_Join ''s1'' ''u1'' ''offer''] \<and>
   fst (Join world_ok ''s1'' client_u1) = None \<and>
   calls (snd (Join world_no_offer ''s1'' client_u1)) =
     [OnTrack sub_pc, OnDataChannel sub_pc, OnICEConnectionStateChange sub_pc,
      CreateOffer pub_pc] \<and>
   fst (Join world_no_offer ''s1'' client_u1) = Some (Err ''create offer failed'')"
  using Join_steps [where w = world_ok and c = client_u1 and s = "''s1''"
      and offer = "''offer''" and eo = None and el = None and ej = None, OF refl]
    Join_steps [where w = world_no_offer and c = client_u1 and s = "''s1''"
      and offer = "[]" and eo = "Some (Err ''create offer failed'')" and el = None
      and ej = None, OF refl]
  by (simp add: world_no_offer_def world_ok_def client_u1_def)

section \<open>Renegotiation after a local track change\<close>

lemma Publish_result: "snd (fst (Publish w tracks c)) = fst (Publish_tracks w tracks c)"
  by (simp add: Publish_def Let_def split: prod.splits option.splits)

lemma UnPublish_result: "fst (UnPublish w ts c) = fst (UnPublish_transceivers w ts c)"
  by (simp add: UnPublish_def Let_def split: prod.splits option.splits)

lemma PublishFile_errors:
  "fst (PublishFile w path video audio c) = Some e \<Longrightarrow>
   e = errInvalidFile \<or> (\<exists>h t. res_AddTrack w h pub_pc t = Some e)"
  by (auto simp: PublishFile_def producer_GetVideoTrack_def producer_GetAudioTrack_def
      pc_AddTrack_def Let_def split: if_splits prod.splits option.splits)

text \<open>
  C5, as amended. A failure of \<open>CreateOffer\<close> or of \<open>SetLocalDescription\<close> in the
  renegotiation step is logged, one line each, and is not returned: \<open>onNegotiationNeeded\<close>
  has no result, \<open>Publish\<close> and \<open>UnPublish\<close> return exactly the result of their loop
  over the tracks, and the only errors \<open>PublishFile\<close> returns are the
  unsupported-file-type error and an error of \<open>AddTrack\<close>.
\<close>

theorem renegotiation_errors_logged_not_returned:
  assumes "res_CreateOffer w (calls c) pub_pc = (offer, eo)"
    and "res_SetLocalDescription w (calls c @ [CreateOffer pub_pc]) pub_pc offer = el"
  shows "logged (onNegotiationNeeded w c) =
           logged c @
           (case eo of
              Some e \<Rightarrow> [(Errorf, ''id=%v err=%v'', [LStr (uid c), LErr e])]
            | None \<Rightarrow> []) @
           (case el of
              Some e \<Rightarrow> [(Errorf, ''id=%v err=%v'', [LStr (uid c), LErr e])]
            | None \<Rightarrow> []) \<and>
         snd (fst (Publish w tracks c)) = fst (Publish_tracks w tracks c) \<and>
         fst (UnPublish w ts c) = fst (UnPublish_transceivers w ts c) \<and>
         (\<forall>e. fst (PublishFile w path video audio c) = Some e \<longrightarrow>
              e = errInvalidFile \<or> (\<exists>h t. res_AddTrack w h pub_pc t = Some e))"
  using assms PublishFile_errors [of w path video audio c]
  by (simp add: onNegotiationNeeded_logged Publish_result UnPublish_result)

theorem renegotiation_errors_logged_not_returned_witness:
  "logged (onNegotiationNeeded world_no_offer client_u1) =
     [(Errorf, ''id=%v err=%v'', [LStr ''u1'', LErr (Err ''create offer failed'')])] \<and>
   snd (fst (Publish world_no_offer [''camera''] client_u1)) = None"
  using renegotiation_errors_logged_not_returned [where w = world_no_offer and c = client_u1
      and offer = "[]" and eo = "Some (Err ''create offer failed'')" and el = None
      and tracks = "[''camera'']"]
  by (simp add: world_no_offer_def world_ok_def client_u1_def pc_AddTrack_def)

text \<open>
  The claim C5 as stated fails: with an engine whose \<open>CreateOffer\<close> fails,
  \<open>Publish\<close> returns no error, and the offer is still set locally and sent.
\<close>

theorem renegotiation_abort_counterexample:
  "snd (res_CreateOffer world_no_offer [AddTrack pub_pc ''camera''] pub_pc) =
     Some (Err ''create offer failed'') \<and>
   fst (Publish world_no_offer [''camera''] client_u1) = ([], None) \<and>
   calls (snd (Publish world_no_offer [''camera''] client_u1)) =
     [AddTrack pub_pc ''camera'', CreateOffer pub_pc, SetLocalDescription pub_pc [],
      signal_offer []]"
  by (simp add: Publish_def pc_AddTrack_def onNegotiationNeeded_calls world_no_offer_def
      world_ok_def client_u1_def Let_def)

section \<open>PublishFile\<close>

lemma filepath_Ext_webm: "filepath_Ext ''media/clip.webm'' = ''.webm''"
  by (simp add: filepath_Ext_def)

lemma filepath_Ext_dot_in_directory: "filepath_Ext ''media.d/clip'' = []"
  by (simp add: filepath_Ext_def)

text \<open>
  C6. For a path whose extension is not \<open>.webm\<close>, \<open>PublishFile\<close> returns
  \<open>errInvalidFile\<close> and the client is exactly as before: no producer, no call to any
  collaborator, no log line.
\<close>

theorem PublishFile_rejects_other_extensions:
  "filepath_Ext file \<noteq> ''.webm'' \<Longrightarrow>
   PublishFile w file video audio c = (Some errInvalidFile, c)"
  by (simp add: PublishFile_def)

theorem PublishFile_rejects_other_extensions_witness:
  "filepath_Ext ''clip.mp4'' \<noteq> ''.webm'' \<and>
   PublishFile world_ok ''clip.mp4'' True True client_u1 = (Some errInvalidFile, client_u1)"
  using PublishFile_rejects_other_extensions [of "''clip.mp4''" world_ok True True client_u1]
  by (simp add: filepath_Ext_def)






section \<open>Track events\<close>

text \<open>
  C7. Whenever no user-supplied handler is registered (the field is nil, or it holds
  the default closure that an earlier dispatch installed), a track event in state
  \<open>TrackAdd\<close> makes exactly one call of \<open>signal.Subscribe\<close>, with the identifiers of
  the event's tracks in their order and \<open>enabled = true\<close>; an event in any other state,
  \<open>TrackRemove\<close> and \<open>TrackNone\<close> among them, makes no call. Afterwards the default
  closure is the registered handler.
\<close>

theorem trackEvent_default_subscribes:
  assumes "OnTrackEvent c \<noteq> Some user_func"
  shows "(State event = TrackAdd \<longrightarrow>
            calls (trackEvent w event c) =
              calls c @ [signal_Subscribe (map ID (Tracks event)) True]) \<and>
         (State event \<noteq> TrackAdd \<longrightarrow> calls (trackEvent w event c) = calls c) \<and>
         TrackRemove \<noteq> TrackAdd \<and> TrackNone \<noteq> TrackAdd \<and>
         OnTrackEvent (trackEvent w event c) = Some default_func"
proof (cases "OnTrackEvent c")
  case None
  then show ?thesis
    by (auto simp: trackEvent_def call_OnTrackEvent_def default_OnTrackEvent_def Subscribe_def
        do_signal_Subscribe_def TrackAdd_def TrackRemove_def TrackNone_def Let_def
        split: option.splits)
next
  case (Some f)
  with assms have "f = default_func"
    by (cases f) simp_all
  with Some show ?thesis
    by (auto simp: trackEvent_def call_OnTrackEvent_def default_OnTrackEvent_def Subscribe_def
        do_signal_Subscribe_def TrackAdd_def TrackRemove_def TrackNone_def Let_def
        split: option.splits)
qed

theorem trackEvent_default_subscribes_witness:
  "calls (trackEvent world_ok event_added client_u1) =
     [signal_Subscribe [''t1'', ''t2''] True] \<and>
   calls (trackEvent world_ok event_added_later
            (trackEvent world_ok event_added client_u1)) =
     [signal_Subscribe [''t1'', ''t2''] True, signal_Subscribe [''t3''] True] \<and>
   calls (trackEvent world_ok \<lparr>State = TrackRemove, Uid = ''u2'', Tracks = []\<rparr>
            (trackEvent world_ok event_added client_u1)) =
     [signal_Subscribe [''t1'', ''t2''] True]"
proof -
  have first: "OnTrackEvent client_u1 \<noteq> Some user_func"
    by (simp add: client_u1_def)
  note one = trackEvent_default_subscribes [where w = world_ok and event = event_added,
      OF first]
  then have second: "OnTrackEvent (trackEvent world_ok event_added client_u1) \<noteq> Some user_func"
    by simp
  note two = trackEvent_default_subscribes [where w = world_ok and event = event_added_later,
      OF second]
  note gone = trackEvent_default_subscribes [where w = world_ok
      and event = "\<lparr>State = TrackRemove, Uid = ''u2'', Tracks = []\<rparr>", OF second]
  have "calls client_u1 = []"
    by (simp add: client_u1_def)
  with one two gone show ?thesis
    by (simp add: event_added_def event_added_later_def TrackAdd_def TrackRemove_def)
qed

section \<open>Bandwidth sampling\<close>

lemma go_div_zero_left: "go_div 0 b = 0"
  by (simp add: go_div_def)

lemma go_div_nonneg:
  assumes "0 \<le> sint a" "0 < sint b"
  shows "sint (go_div a b) = sint a div sint b"
proof -
  have lt: "sint a < 2 ^ 63" using sint_lt [of a] by simp
  have "sint a sdiv sint b = sint a div sint b"
    using assms by (simp add: signed_divide_int_def sgn_if)
  moreover have "0 \<le> sint a div sint b" using assms by (simp add: pos_imp_zdiv_nonneg_iff)
  moreover have "sint a div sint b \<le> sint a" using assms
    by (metis div_by_1 zdiv_mono2 zero_less_one int_one_le_iff_zero_less)
  ultimately show ?thesis
    using lt unfolding go_div_def
    by (simp add: int_word_sint)
qed

lemma go_div_twice:
  assumes "0 \<le> sint a" "0 < sint b"
  shows "sint (go_div (go_div a b) 1000) = sint a div sint b div 1000"
proof -
  have "sint (go_div a b) = sint a div sint b"
    using assms by (rule go_div_nonneg)
  moreover have "0 \<le> sint a div sint b"
    using assms by (simp add: pos_imp_zdiv_nonneg_iff)
  moreover have "0 < sint (1000 :: go_int)"
    by simp
  ultimately show ?thesis
    using go_div_nonneg [of "go_div a b" 1000] by simp
qed

lemma go_div_example: "go_div (go_div 8000 4) 1000 = 2"
  by (simp add: go_div_def signed_divide_int_def)

text \<open>
  C8. A call of \<open>getBandWidth\<close> with a cycle other than zero returns, as receive
  bandwidth, the byte counter divided by the cycle and then by 1000 (Go's integer
  division; for a counter that is not negative and a positive cycle this is the
  quotient of the integers), and leaves the counter at zero; so the next sample, with
  nothing received in between, returns a receive bandwidth of zero.
\<close>

theorem getBandWidth_sample:
  assumes "cycle \<noteq> 0"
  shows "(\<exists>sendBW c'. getBandWidth w cycle c =
            Inr ((go_div (go_div (recvByte c) cycle) 1000, sendBW), c') \<and>
          recvByte c' = 0 \<and>
          (\<forall>cycle'. cycle' \<noteq> 0 \<longrightarrow>
             (\<exists>sendBW' c''. getBandWidth w cycle' c' = Inr ((0, sendBW'), c'') \<and>
                recvByte c'' = 0))) \<and>
         (0 \<le> sint (recvByte c) \<and> 0 < sint cycle \<longrightarrow>
            sint (go_div (go_div (recvByte c) cycle) 1000) =
              sint (recvByte c) div sint cycle div 1000)"
  using assms
  by (auto simp: getBandWidth_def producer_GetSendBandwidth_def go_div_zero_left go_div_twice
      Let_def split: option.splits)

theorem getBandWidth_sample_witness:
  "(4 :: go_int) \<noteq> 0 \<and>
   (\<exists>sendBW c'. getBandWidth world_ok 4 (client_u1\<lparr>recvByte := 8000\<rparr>) =
       Inr ((2, sendBW), c') \<and> recvByte c' = 0)"
  using getBandWidth_sample [of 4 world_ok "client_u1\<lparr>recvByte := 8000\<rparr>"]
  by (auto simp: go_div_example)

text \<open>
  C9. \<open>getBandWidth\<close> divides by its cycle without a test: with cycle zero the call
  panics with an integer division by zero, and with any other cycle it returns.
\<close>

theorem getBandWidth_total_iff:
  "(cycle = 0 \<longrightarrow> getBandWidth w cycle c = Inl integer_divide_by_zero) \<and>
   (cycle \<noteq> 0 \<longrightarrow> (\<exists>r. getBandWidth w cycle c = Inr r))"
  by (auto simp: getBandWidth_def producer_GetSendBandwidth_def Let_def split: option.splits prod.splits)

theorem getBandWidth_total_iff_witness:
  "getBandWidth world_ok 0 client_u1 = Inl integer_divide_by_zero \<and>
   (\<exists>r. getBandWidth world_ok 4 client_u1 = Inr r)"
  using getBandWidth_total_iff [of 0 world_ok client_u1]
    getBandWidth_total_iff [of 4 world_ok client_u1]
  by simp

end
